theory Spec2Isabelle
  imports Complex_Main
begin

section \<open>The training harness \<open>Model_Composite\<close> of \<open>models/model_composite.py\<close>\<close>

text \<open>
  The class wraps a classifier: it keeps four history lists, runs one training pass
  (\<open>model_train\<close>) or one evaluation pass (\<open>model_test\<close>) over a data loader, builds a
  normalisation layer (\<open>get_norm\<close>) and collects misclassified samples of one batch
  (\<open>get_incorrect_pred\<close>).

  Conventions of the embedding:
  \<^item> Python floats are modelled by exact reals; every number the class stores is the
    result of a sum, a product or a quotient of such values.
  \<^item> A tensor of class scores is a list of rows, one row of scores per sample; a tensor
    of labels is a list of integers.
  \<^item> A batch drawn from a \<open>torch.utils.data.DataLoader\<close> is a list of (input, label)
    pairs: \<open>data\<close> is the list of its first components and \<open>target\<close> the list of its
    second components.
  \<^item> An exception is a value of type \<open>error\<close>. A method returns the object after the call
    together with \<open>Inl e\<close> (it raised \<open>e\<close>) or \<open>Inr v\<close> (it returned \<open>v\<close>): what a method
    has written to \<open>self\<close> before it raises stays written.
  \<^item> The forward pass \<open>self(data)\<close> is the parameter \<open>fwd\<close>: from the trainable state,
    the \<open>training\<close> flag and one input it gives that input's row of class scores.
  \<^item> Moving tensors to a device, the progress bar, \<open>torch.no_grad\<close> and plotting do not
    change any value and are left out; the arguments of the progress bar's description
    are evaluated, since evaluating them can raise.
\<close>

datatype error = ZeroDivisionError | IndexError | StopIteration | TypeError | RuntimeError

type_synonym 'x batch = "('x \<times> int) list"

text \<open>
  The loader: the batches one iteration yields, \<open>len(loader.dataset)\<close> and
  \<open>loader.batch_size\<close>.
\<close>

record 'x data_loader =
  batches :: "'x batch list"
  dataset_len :: nat
  batch_size :: nat

text \<open>
  The loss function is called as \<open>criterion(y_pred, target)\<close> or as
  \<open>criterion(y_pred, target, reduction='sum')\<close>; the third argument is the keyword
  argument when it is given. The result is the value of \<open>.item()\<close>, or the exception.
\<close>

type_synonym criterion = "real list list \<Rightarrow> int list \<Rightarrow> string option \<Rightarrow> error + real"

record 'p model_composite =
  train_accuracy :: "real list"
  test_accuracy :: "real list"
  train_losses :: "real list"
  test_losses :: "real list"
  norm_type :: string
  n_groups :: int
  training :: bool
  params :: 'p

text \<open>\<open>__init__\<close>; \<open>nn.Module.__init__\<close> sets \<open>training\<close>, the subclass gives the parameters.\<close>

definition init :: "'p \<Rightarrow> 'p model_composite" where
  "init p = \<lparr>train_accuracy = [], test_accuracy = [], train_losses = [], test_losses = [],
             norm_type = ''bn'', n_groups = 2, training = True, params = p\<rparr>"

subsection \<open>Predictions\<close>

text \<open>
  \<open>argmax(dim=1)\<close>: for each row the index of its first maximal score; a row without
  scores makes torch raise.
\<close>

fun argmax_from :: "real list \<Rightarrow> nat \<Rightarrow> nat \<Rightarrow> real \<Rightarrow> nat" where
  "argmax_from [] i best bv = best"
| "argmax_from (v # vs) i best bv =
     (if bv < v then argmax_from vs (Suc i) i v else argmax_from vs (Suc i) best bv)"

definition argmax_row :: "real list \<Rightarrow> error + int" where
  "argmax_row row =
     (case row of [] \<Rightarrow> Inl IndexError | v # vs \<Rightarrow> Inr (int (argmax_from vs 1 0 v)))"

fun argmax :: "real list list \<Rightarrow> error + int list" where
  "argmax [] = Inr []"
| "argmax (row # rows) =
     (case argmax_row row of
        Inl e \<Rightarrow> Inl e
      | Inr k \<Rightarrow> (case argmax rows of Inl e \<Rightarrow> Inl e | Inr ks \<Rightarrow> Inr (k # ks)))"

text \<open>\<open>pred.eq(target.view_as(pred)).sum().item()\<close>\<close>

definition eq_sum :: "int list \<Rightarrow> int list \<Rightarrow> nat" where
  "eq_sum pred target = length (filter (\<lambda>(a, b). a = b) (zip pred target))"

subsection \<open>\<open>model_train\<close>\<close>

text \<open>
  The loop of \<open>model_train\<close> over the batches. The accumulators are \<open>train_loss\<close>,
  \<open>correct\<close> and \<open>processed\<close>. \<open>optimizer p data target\<close> stands for
  \<open>zero_grad\<close>, \<open>loss.backward()\<close> and \<open>optimizer.step()\<close>; the scheduler is optional.
  The description of the progress bar divides by \<open>processed\<close>.
\<close>

fun train_loop ::
  "('p \<Rightarrow> bool \<Rightarrow> 'x \<Rightarrow> real list) \<Rightarrow> criterion \<Rightarrow> ('p \<Rightarrow> 'x list \<Rightarrow> int list \<Rightarrow> 'p) \<Rightarrow>
   ('p \<Rightarrow> 'p) option \<Rightarrow> 'p \<Rightarrow> real \<times> nat \<times> nat \<Rightarrow> 'x batch list \<Rightarrow>
   'p \<times> (error + real \<times> nat \<times> nat)" where
  "train_loop fwd crit optimizer scheduler p acc [] = (p, Inr acc)"
| "train_loop fwd crit optimizer scheduler p (train_loss, correct, processed) (b # bs) =
     (let data = map fst b; target = map snd b;
          y_pred = map (fwd p True) data
      in case crit y_pred target None of
           Inl e \<Rightarrow> (p, Inl e)
         | Inr loss \<Rightarrow>
             (case argmax y_pred of
                Inl e \<Rightarrow> (p, Inl e)
              | Inr pred \<Rightarrow>
                  (let correct' = correct + eq_sum pred target;
                       processed' = processed + length data;
                       p1 = optimizer p data target;
                       p2 = (case scheduler of None \<Rightarrow> p1 | Some f \<Rightarrow> f p1)
                   in if processed' = 0 then (p2, Inl ZeroDivisionError)
                      else train_loop fwd crit optimizer scheduler p2
                             (train_loss + loss, correct', processed') bs)))"

definition model_train ::
  "('p \<Rightarrow> bool \<Rightarrow> 'x \<Rightarrow> real list) \<Rightarrow> 'p model_composite \<Rightarrow> 'x data_loader \<Rightarrow> criterion \<Rightarrow>
   ('p \<Rightarrow> 'x list \<Rightarrow> int list \<Rightarrow> 'p) \<Rightarrow> ('p \<Rightarrow> 'p) option \<Rightarrow>
   'p model_composite \<times> (error + unit)" where
  "model_train fwd self train_loader crit optimizer scheduler =
     (let s1 = self\<lparr>training := True\<rparr>
      in case train_loop fwd crit optimizer scheduler (params s1) (0, 0, 0)
                (batches train_loader) of
           (p, Inl e) \<Rightarrow> (s1\<lparr>params := p\<rparr>, Inl e)
         | (p, Inr (train_loss, correct, processed)) \<Rightarrow>
             (let s2 = s1\<lparr>params := p\<rparr>
              in if processed = 0 then (s2, Inl ZeroDivisionError)
                 else (s2\<lparr>train_accuracy :=
                             train_accuracy s2 @ [100 * real correct / real processed],
                           train_losses := train_losses s2 @ [train_loss]\<rparr>,
                       Inr ())))"

subsection \<open>\<open>model_test\<close>\<close>

text \<open>
  The loss of one batch in \<open>model_test\<close>: the call with \<open>reduction='sum'\<close> inside
  \<open>try\<close>, the call without it in the bare \<open>except\<close>.
\<close>

definition test_batch_loss :: "criterion \<Rightarrow> real list list \<Rightarrow> int list \<Rightarrow> error + real" where
  "test_batch_loss crit y_pred target =
     (case crit y_pred target (Some ''sum'') of
        Inr v \<Rightarrow> Inr v
      | Inl e \<Rightarrow> crit y_pred target None)"

fun test_loop ::
  "('p \<Rightarrow> bool \<Rightarrow> 'x \<Rightarrow> real list) \<Rightarrow> criterion \<Rightarrow> 'p \<Rightarrow> real \<times> nat \<times> nat \<Rightarrow>
   'x batch list \<Rightarrow> error + real \<times> nat \<times> nat" where
  "test_loop fwd crit p acc [] = Inr acc"
| "test_loop fwd crit p (test_loss, correct, processed) (b # bs) =
     (let data = map fst b; target = map snd b;
          y_pred = map (fwd p False) data
      in case test_batch_loss crit y_pred target of
           Inl e \<Rightarrow> Inl e
         | Inr loss \<Rightarrow>
             (case argmax y_pred of
                Inl e \<Rightarrow> Inl e
              | Inr pred \<Rightarrow>
                  test_loop fwd crit p
                    (test_loss + loss, correct + eq_sum pred target, processed + length data)
                    bs))"

text \<open>\<open>round(x, 4)\<close>: to the nearest multiple of \<open>1/10000\<close>, a tie to the even one.\<close>

definition round_half_even :: "real \<Rightarrow> int" where
  "round_half_even y =
     (let n = \<lfloor>y\<rfloor>; r = y - of_int n
      in if r < 1 / 2 then n else if 1 / 2 < r then n + 1 else if even n then n else n + 1)"

definition round4 :: "real \<Rightarrow> real" where
  "round4 x = of_int (round_half_even (x * 10000)) / 10000"

text \<open>The values the summary line of \<open>model_test\<close> prints, in the order of its fields.\<close>

record test_report =
  average_loss :: real
  n_correct :: nat
  n_total :: nat
  accuracy :: real
  accuracy_diff :: real

text \<open>\<open>xs[-1]\<close>\<close>

definition last_item :: "'a list \<Rightarrow> error + 'a" where
  "last_item xs = (if xs = [] then Inl IndexError else Inr (last xs))"

definition model_test ::
  "('p \<Rightarrow> bool \<Rightarrow> 'x \<Rightarrow> real list) \<Rightarrow> 'p model_composite \<Rightarrow> 'x data_loader \<Rightarrow> criterion \<Rightarrow>
   'p model_composite \<times> (error + test_report)" where
  "model_test fwd self test_loader crit =
     (let s1 = self\<lparr>training := False\<rparr>
      in case test_loop fwd crit (params s1) (0, 0, 0) (batches test_loader) of
           Inl e \<Rightarrow> (s1, Inl e)
         | Inr (test_loss, correct, processed) \<Rightarrow>
             (let s2 = s1\<lparr>test_losses := test_losses s1 @ [test_loss]\<rparr>;
                  n = dataset_len test_loader
              in if batch_size test_loader = 0 \<or> n = 0 then (s2, Inl ZeroDivisionError)
                 else
                   (let avg = test_loss / (real n / real (batch_size test_loader));
                        acc = 100 * real correct / real n;
                        s3 = s2\<lparr>test_accuracy := test_accuracy s2 @ [acc]\<rparr>
                    in case last_item (train_accuracy s3) of
                         Inl e \<Rightarrow> (s3, Inl e)
                       | Inr tr \<Rightarrow>
                           (s3, Inr \<lparr>average_loss = avg, n_correct = correct, n_total = n,
                                     accuracy = acc,
                                     accuracy_diff = \<bar>round4 (last (test_accuracy s3) - tr)\<bar>\<rparr>))))"

subsection \<open>\<open>get_norm\<close>\<close>

text \<open>
  The layers \<open>get_norm\<close> constructs, named as the constructor calls
  \<open>nn.BatchNorm2d(n_channels)\<close> and \<open>nn.GroupNorm(num_groups, n_channels)\<close>. A method that
  falls off its end returns Python's \<open>None\<close>.
\<close>

datatype norm_layer = BatchNorm2d int | GroupNorm int int

definition get_norm :: "'p model_composite \<Rightarrow> int \<Rightarrow> norm_layer option" where
  "get_norm self n_channels =
     (if norm_type self = ''bn'' then Some (BatchNorm2d n_channels)
      else if norm_type self = ''ln'' then Some (GroupNorm 1 n_channels)
      else if norm_type self = ''gn'' then Some (GroupNorm (n_groups self) n_channels)
      else None)"

subsection \<open>\<open>get_incorrect_pred\<close>\<close>

text \<open>\<open>xs[:n]\<close> for an integer \<open>n\<close>: a negative \<open>n\<close> counts from the end.\<close>

definition slice_to :: "'a list \<Rightarrow> int \<Rightarrow> 'a list" where
  "slice_to xs n = (if 0 \<le> n then take (nat n) xs else take (length xs - nat (- n)) xs)"

text \<open>\<open>torch.where(compare == False, 1, 0).nonzero()\<close>: the positions that differ, ascending.\<close>

definition incorrect_indx :: "int list \<Rightarrow> int list \<Rightarrow> nat list" where
  "incorrect_indx pred target =
     filter (\<lambda>i. pred ! i \<noteq> target ! i) [0 ..< min (length pred) (length target)]"

text \<open>
  \<open>.squeeze()\<close> turns the index column of exactly one row into a tensor of no dimension,
  and indexing with it gives the single element without the batch dimension; any other
  number of rows stays a one-dimensional index and gives the stacked elements.
\<close>

datatype 'a selection = Stacked "'a list" | Element 'a

text \<open>\<open>xs[idx]\<close> for an index tensor \<open>idx\<close>; an index outside \<open>xs\<close> raises.\<close>

definition index_select :: "'a list \<Rightarrow> nat list \<Rightarrow> error + 'a selection" where
  "index_select xs idx =
     (if \<exists>i \<in> set idx. length xs \<le> i then Inl IndexError
      else case idx of [i] \<Rightarrow> Inr (Element (xs ! i)) | _ \<Rightarrow> Inr (Stacked (map (\<lambda>i. xs ! i) idx)))"

definition get_incorrect_pred ::
  "('p \<Rightarrow> bool \<Rightarrow> 'x \<Rightarrow> real list) \<Rightarrow> 'p model_composite \<Rightarrow> 'x data_loader \<Rightarrow> int \<Rightarrow>
   error + 'x selection \<times> int selection \<times> int selection" where
  "get_incorrect_pred fwd self test_loader top_n =
     (case batches test_loader of
        [] \<Rightarrow> Inl StopIteration
      | b # _ \<Rightarrow>
          (let data = map fst b; target = map snd b;
               y_pred = map (fwd (params self) (training self)) data
           in case argmax y_pred of
                Inl e \<Rightarrow> Inl e
              | Inr pred \<Rightarrow>
                  (let top_n_pred = slice_to (incorrect_indx pred target) top_n
                   in case index_select data top_n_pred of
                        Inl e \<Rightarrow> Inl e
                      | Inr ds \<Rightarrow>
                          (case index_select target top_n_pred of
                             Inl e \<Rightarrow> Inl e
                           | Inr ts \<Rightarrow>
                               (case index_select pred top_n_pred of
                                  Inl e \<Rightarrow> Inl e
                                | Inr ps \<Rightarrow> Inr (ds, ts, ps))))))"

text \<open>The samples a returned tensor holds, and the triples a returned tuple holds.\<close>

fun items :: "'a selection \<Rightarrow> 'a list" where
  "items (Stacked xs) = xs"
| "items (Element x) = [x]"

definition triples :: "'x selection \<times> int selection \<times> int selection \<Rightarrow> ('x \<times> int \<times> int) list" where
  "triples r = (case r of (ds, ts, ps) \<Rightarrow> zip (items ds) (zip (items ts) (items ps)))"

subsection \<open>A caller\<close>

text \<open>
  A caller makes a sequence of \<open>model_train\<close> and \<open>model_test\<close> calls on one object and
  stops at the first call that raises.
\<close>

datatype ('p, 'x) call =
    Train "'x data_loader" criterion "'p \<Rightarrow> 'x list \<Rightarrow> int list \<Rightarrow> 'p" "('p \<Rightarrow> 'p) option"
  | Test "'x data_loader" criterion

fun is_train :: "('p, 'x) call \<Rightarrow> bool" where
  "is_train (Train l c opt sch) = True"
| "is_train (Test l c) = False"

fun run ::
  "('p \<Rightarrow> bool \<Rightarrow> 'x \<Rightarrow> real list) \<Rightarrow> 'p model_composite \<Rightarrow> ('p, 'x) call list \<Rightarrow>
   'p model_composite \<times> error option" where
  "run fwd self [] = (self, None)"
| "run fwd self (Train l c opt sch # cs) =
     (case model_train fwd self l c opt sch of
        (s', Inl e) \<Rightarrow> (s', Some e)
      | (s', Inr u) \<Rightarrow> run fwd s' cs)"
| "run fwd self (Test l c # cs) =
     (case model_test fwd self l c of
        (s', Inl e) \<Rightarrow> (s', Some e)
      | (s', Inr rep) \<Rightarrow> run fwd s' cs)"

subsection \<open>The values of each batch of a training pass\<close>

text \<open>
  For each batch that \<open>model_train\<close> processes: its loss, the number of its samples whose
  prediction equals the target, and its number of samples, each computed with the
  parameters the pass has reached at that batch.
\<close>

fun train_steps ::
  "('p \<Rightarrow> bool \<Rightarrow> 'x \<Rightarrow> real list) \<Rightarrow> criterion \<Rightarrow> ('p \<Rightarrow> 'x list \<Rightarrow> int list \<Rightarrow> 'p) \<Rightarrow>
   ('p \<Rightarrow> 'p) option \<Rightarrow> 'p \<Rightarrow> 'x batch list \<Rightarrow> (real \<times> nat \<times> nat) list" where
  "train_steps fwd crit optimizer scheduler p [] = []"
| "train_steps fwd crit optimizer scheduler p (b # bs) =
     (let data = map fst b; target = map snd b;
          y_pred = map (fwd p True) data
      in case crit y_pred target None of
           Inl e \<Rightarrow> []
         | Inr loss \<Rightarrow>
             (case argmax y_pred of
                Inl e \<Rightarrow> []
              | Inr pred \<Rightarrow>
                  (let p1 = optimizer p data target;
                       p2 = (case scheduler of None \<Rightarrow> p1 | Some f \<Rightarrow> f p1)
                   in (loss, eq_sum pred target, length data)
                      # train_steps fwd crit optimizer scheduler p2 bs)))"

text \<open>
  For each batch that \<open>model_train\<close> processes: its loss, the predicted class of each of
  its samples and the target of each of its samples, with the parameters the pass has
  reached at that batch.
\<close>

fun train_preds ::
  "('p \<Rightarrow> bool \<Rightarrow> 'x \<Rightarrow> real list) \<Rightarrow> criterion \<Rightarrow> ('p \<Rightarrow> 'x list \<Rightarrow> int list \<Rightarrow> 'p) \<Rightarrow>
   ('p \<Rightarrow> 'p) option \<Rightarrow> 'p \<Rightarrow> 'x batch list \<Rightarrow> (real \<times> int list \<times> int list) list" where
  "train_preds fwd crit optimizer scheduler p [] = []"
| "train_preds fwd crit optimizer scheduler p (b # bs) =
     (let data = map fst b; target = map snd b;
          y_pred = map (fwd p True) data
      in case crit y_pred target None of
           Inl e \<Rightarrow> []
         | Inr loss \<Rightarrow>
             (case argmax y_pred of
                Inl e \<Rightarrow> []
              | Inr pred \<Rightarrow>
                  (let p1 = optimizer p data target;
                       p2 = (case scheduler of None \<Rightarrow> p1 | Some f \<Rightarrow> f p1)
                   in (loss, pred, target) # train_preds fwd crit optimizer scheduler p2 bs)))"

text \<open>The loss of each batch of an evaluation pass.\<close>

definition test_losses_of ::
  "('p \<Rightarrow> bool \<Rightarrow> 'x \<Rightarrow> real list) \<Rightarrow> criterion \<Rightarrow> 'p \<Rightarrow> 'x batch list \<Rightarrow> (error + real) list" where
  "test_losses_of fwd crit p bs =
     map (\<lambda>b. test_batch_loss crit (map (fwd p False) (map fst b)) (map snd b)) bs"

subsection \<open>Example collaborators\<close>

text \<open>
  A sample is the number of its class. \<open>exact_fwd\<close> scores the sample's own class highest
  among three classes, \<open>zero_fwd\<close> always scores class 0 highest. \<open>unit_loss\<close> is 1 for
  every batch and accepts \<open>reduction\<close>; \<open>plain_loss\<close> is 2 and rejects every keyword
  argument. \<open>keep\<close> is an optimizer step that leaves the parameters as they are.
\<close>

definition exact_fwd :: "unit \<Rightarrow> bool \<Rightarrow> nat \<Rightarrow> real list" where
  "exact_fwd p tr x = map (\<lambda>i. if i = x then 1 else 0) [0, 1, 2]"

definition zero_fwd :: "unit \<Rightarrow> bool \<Rightarrow> nat \<Rightarrow> real list" where
  "zero_fwd p tr x = [1, 0, 0]"

definition unit_loss :: criterion where
  "unit_loss y_pred target kw = Inr 1"

definition plain_loss :: criterion where
  "plain_loss y_pred target kw = (case kw of None \<Rightarrow> Inr 2 | Some k \<Rightarrow> Inl TypeError)"

definition keep :: "unit \<Rightarrow> nat list \<Rightarrow> int list \<Rightarrow> unit" where
  "keep p data target = p"

text \<open>Two batches of four samples; a dataset of 100 samples in five batches of 20.\<close>

definition loader8 :: "nat data_loader" where
  "loader8 = \<lparr>batches = [[(0, 0), (1, 1), (2, 2), (1, 1)], [(2, 2), (0, 0), (0, 0), (1, 1)]],
              dataset_len = 8, batch_size = 4\<rparr>"

definition loader100 :: "nat data_loader" where
  "loader100 = \<lparr>batches = replicate 5 (replicate 20 (1, 1)), dataset_len = 100,
                batch_size = 20\<rparr>"

text \<open>The object after one training pass of a new object over the two batches.\<close>

definition trained8 :: "unit model_composite" where
  "trained8 = fst (model_train exact_fwd (init ()) loader8 unit_loss keep None)"

section \<open>Properties\<close>

subsection \<open>Helper facts\<close>

lemma eq_sum_le: "eq_sum pred target \<le> length target"
proof -
  have "eq_sum pred target \<le> length (zip pred target)"
    unfolding eq_sum_def by (rule length_filter_le)
  then show ?thesis by simp
qed

lemma argmax_length: "argmax rows = Inr ks \<Longrightarrow> length ks = length rows"
  by (induction rows arbitrary: ks) (auto split: sum.splits)

subsection \<open>The loops\<close>

lemma train_loop_steps:
  "train_loop fwd crit opt sch p (L, C, P) bs = (p', Inr (L', C', P')) \<Longrightarrow>
   length (train_steps fwd crit opt sch p bs) = length bs \<and>
   L' = L + sum_list (map fst (train_steps fwd crit opt sch p bs)) \<and>
   C' = C + sum_list (map (fst \<circ> snd) (train_steps fwd crit opt sch p bs)) \<and>
   P' = P + sum_list (map (snd \<circ> snd) (train_steps fwd crit opt sch p bs))"
proof (induction bs arbitrary: p L C P)
  case Nil
  then show ?case by simp
next
  case (Cons b bs)
  from Cons.prems obtain loss pred where
    loss: "crit (map (fwd p True) (map fst b)) (map snd b) None = Inr loss" and
    pred: "argmax (map (fwd p True) (map fst b)) = Inr pred" and
    rest: "train_loop fwd crit opt sch
             (case sch of None \<Rightarrow> opt p (map fst b) (map snd b)
                        | Some f \<Rightarrow> f (opt p (map fst b) (map snd b)))
             (L + loss, C + eq_sum pred (map snd b), P + length (map fst b)) bs
           = (p', Inr (L', C', P'))"
    by (auto simp: Let_def split: sum.splits if_splits)
  from Cons.IH [OF rest] loss pred show ?case
    by (simp add: Let_def)
qed

lemma train_steps_le:
  "(l, c, n) \<in> set (train_steps fwd crit opt sch p bs) \<Longrightarrow> c \<le> n"
proof (induction bs arbitrary: p)
  case Nil
  then show ?case by simp
next
  case (Cons b bs)
  then show ?case
    using eq_sum_le [of _ "map snd b"]
    by (auto simp: Let_def split: sum.splits)
qed

lemma sum_list_le_pointwise:
  assumes "\<And>l c n. (l, c, n) \<in> set st \<Longrightarrow> c \<le> (n::nat)"
  shows "sum_list (map (fst \<circ> snd) st) \<le> sum_list (map (snd \<circ> snd) st)"
proof -
  have "fst (snd x) \<le> snd (snd x)" if "x \<in> set st" for x
    using assms [of "fst x" "fst (snd x)" "snd (snd x)"] that by simp
  then have "(\<Sum>x\<leftarrow>st. fst (snd x)) \<le> (\<Sum>x\<leftarrow>st. snd (snd x))"
    by (rule sum_list_mono)
  then show ?thesis by (simp add: comp_def)
qed

lemma sum_list_eq_pointwise:
  assumes "\<And>l c n. (l, c, n) \<in> set st \<Longrightarrow> c = (n::nat)"
  shows "sum_list (map (fst \<circ> snd) st) = sum_list (map (snd \<circ> snd) st)"
proof -
  have "fst (snd x) = snd (snd x)" if "x \<in> set st" for x
    using assms [of "fst x" "fst (snd x)" "snd (snd x)"] that by simp
  then have "map (fst \<circ> snd) st = map (snd \<circ> snd) st"
    by (intro map_cong) simp_all
  then show ?thesis by (rule arg_cong)
qed

lemma train_steps_sizes:
  "length (train_steps fwd crit opt sch p bs) = length bs \<Longrightarrow>
   map (snd \<circ> snd) (train_steps fwd crit opt sch p bs) = map length bs"
proof (induction bs arbitrary: p)
  case Nil
  then show ?case by simp
next
  case (Cons b bs)
  then show ?case
    by (auto simp: Let_def split: sum.splits)
qed

lemma test_loop_counts:
  "test_loop fwd crit p (L, C, P) bs = Inr (L', C', P') \<Longrightarrow>
   C' + P \<le> C + P' \<and> P' = P + sum_list (map length bs)"
proof (induction bs arbitrary: L C P)
  case Nil
  then show ?case by simp
next
  case (Cons b bs)
  from Cons.prems obtain loss pred where
    rest: "test_loop fwd crit p
             (L + loss, C + eq_sum pred (map snd b), P + length (map fst b)) bs
           = Inr (L', C', P')"
    by (auto simp: Let_def split: sum.splits)
  from Cons.IH [OF rest] eq_sum_le [of pred "map snd b"] show ?case
    by simp
qed

lemma test_loop_losses:
  "test_loop fwd crit p (L, C, P) bs = Inr (L', C', P') \<Longrightarrow>
   \<exists>vs. test_losses_of fwd crit p bs = map Inr vs \<and> L' = L + sum_list vs"
proof (induction bs arbitrary: L C P)
  case Nil
  then show ?case by (simp add: test_losses_of_def)
next
  case (Cons b bs)
  from Cons.prems obtain loss pred where
    loss: "test_batch_loss crit (map (fwd p False) (map fst b)) (map snd b) = Inr loss" and
    rest: "test_loop fwd crit p
             (L + loss, C + eq_sum pred (map snd b), P + length (map fst b)) bs
           = Inr (L', C', P')"
    by (auto simp: Let_def split: sum.splits)
  from Cons.IH [OF rest] obtain vs where
    vs: "test_losses_of fwd crit p bs = map Inr vs" "L' = L + loss + sum_list vs"
    by blast
  have "test_losses_of fwd crit p (b # bs) = map Inr (loss # vs)"
    using loss vs(1) by (simp add: test_losses_of_def)
  moreover have "L' = L + sum_list (loss # vs)"
    using vs(2) by simp
  ultimately show ?case by blast
qed

subsection \<open>What one call writes\<close>

lemma model_train_returns:
  assumes "model_train fwd s l crit opt sch = (s', Inr u)"
  shows "\<exists>L C P. train_loop fwd crit opt sch (params s) (0, 0, 0) (batches l)
                    = (params s', Inr (L, C, P)) \<and> P \<noteq> 0 \<and>
           train_accuracy s' = train_accuracy s @ [100 * real C / real P] \<and>
           train_losses s' = train_losses s @ [L] \<and>
           test_accuracy s' = test_accuracy s \<and> test_losses s' = test_losses s"
  using assms
  by (auto simp: model_train_def Let_def split: prod.splits sum.splits if_splits)

lemma model_train_raises:
  assumes "model_train fwd s l crit opt sch = (s', Inl e)"
  shows "train_accuracy s' = train_accuracy s \<and> train_losses s' = train_losses s \<and>
         test_accuracy s' = test_accuracy s \<and> test_losses s' = test_losses s"
  using assms
  by (auto simp: model_train_def Let_def split: prod.splits sum.splits if_splits)

lemma model_test_returns:
  assumes "model_test fwd s l crit = (s', Inr rep)"
  shows "\<exists>L C P. test_loop fwd crit (params s) (0, 0, 0) (batches l) = Inr (L, C, P) \<and>
           batch_size l \<noteq> 0 \<and> dataset_len l \<noteq> 0 \<and>
           test_losses s' = test_losses s @ [L] \<and>
           test_accuracy s' = test_accuracy s @ [100 * real C / real (dataset_len l)] \<and>
           average_loss rep = L / (real (dataset_len l) / real (batch_size l)) \<and>
           accuracy rep = 100 * real C / real (dataset_len l) \<and>
           train_accuracy s' = train_accuracy s \<and> train_losses s' = train_losses s \<and>
           train_accuracy s \<noteq> []"
  using assms
  by (auto simp: model_test_def Let_def last_item_def
           split: prod.splits sum.splits if_splits)

lemma model_test_accuracy:
  assumes "model_test fwd s l crit = (s', r)"
  shows "test_accuracy s' = test_accuracy s \<or>
         (\<exists>L C P. test_loop fwd crit (params s) (0, 0, 0) (batches l) = Inr (L, C, P) \<and>
            dataset_len l \<noteq> 0 \<and>
            test_accuracy s' = test_accuracy s @ [100 * real C / real (dataset_len l)])"
  using assms
  by (auto simp: model_test_def Let_def last_item_def
           split: prod.splits sum.splits if_splits)

subsection \<open>The claims\<close>

text \<open>
  C10. A new object has the tag \<open>'bn'\<close>, two groups and four empty histories, so
  \<open>get_norm\<close> on it gives a batch normalisation for every number of channels.
\<close>

theorem fresh_object_C10:
  "norm_type (init p) = ''bn'' \<and> n_groups (init p) = 2 \<and>
   train_accuracy (init p) = [] \<and> test_accuracy (init p) = [] \<and>
   train_losses (init p) = [] \<and> test_losses (init p) = [] \<and>
   get_norm (init p) n = Some (BatchNorm2d n)"
  by (simp add: init_def get_norm_def)

text \<open>
  C6. With the tag \<open>'bn'\<close>, \<open>get_norm\<close> returns \<open>BatchNorm2d\<close> over the given channels; with
  \<open>'gn'\<close> and group count \<open>g\<close> it returns \<open>GroupNorm\<close> with \<open>g\<close> groups; with \<open>'ln'\<close> it
  returns \<open>GroupNorm\<close> with one group, the same layer as the tag \<open>'gn'\<close> with one group.
\<close>

theorem get_norm_tags_C6:
  "get_norm (s\<lparr>norm_type := ''bn''\<rparr>) n = Some (BatchNorm2d n) \<and>
   get_norm (s\<lparr>norm_type := ''gn'', n_groups := g\<rparr>) n = Some (GroupNorm g n) \<and>
   get_norm (s\<lparr>norm_type := ''ln''\<rparr>) n = Some (GroupNorm 1 n) \<and>
   get_norm (s\<lparr>norm_type := ''ln''\<rparr>) n = get_norm (s\<lparr>norm_type := ''gn'', n_groups := 1\<rparr>) n"
  by (simp add: get_norm_def)

theorem get_norm_tags_C6_witness:
  "get_norm ((init ())\<lparr>norm_type := ''bn''\<rparr>) 16 = Some (BatchNorm2d 16) \<and>
   get_norm ((init ())\<lparr>norm_type := ''gn'', n_groups := 4\<rparr>) 16 = Some (GroupNorm 4 16) \<and>
   get_norm ((init ())\<lparr>norm_type := ''ln''\<rparr>) 16 = Some (GroupNorm 1 16) \<and>
   get_norm ((init ())\<lparr>norm_type := ''ln''\<rparr>) 16 = get_norm ((init ())\<lparr>norm_type := ''gn'', n_groups := 1\<rparr>) 16"
  by (rule get_norm_tags_C6)

text \<open>
  C7. With a tag that is none of \<open>'bn'\<close>, \<open>'ln'\<close> and \<open>'gn'\<close>, \<open>get_norm\<close> returns \<open>None\<close>
  for every number of channels; it does not raise.
\<close>

theorem get_norm_unknown_C7:
  assumes "norm_type s \<noteq> ''bn''" and "norm_type s \<noteq> ''ln''" and "norm_type s \<noteq> ''gn''"
  shows "get_norm s n = None"
  using assms by (simp add: get_norm_def)

theorem get_norm_unknown_C7_witness:
  "norm_type ((init ())\<lparr>norm_type := ''in''\<rparr>) \<noteq> ''bn'' \<and>
   norm_type ((init ())\<lparr>norm_type := ''in''\<rparr>) \<noteq> ''ln'' \<and>
   norm_type ((init ())\<lparr>norm_type := ''in''\<rparr>) \<noteq> ''gn'' \<and>
   get_norm ((init ())\<lparr>norm_type := ''in''\<rparr>) 16 = None"
  using get_norm_unknown_C7 [of "(init ())\<lparr>norm_type := ''in''\<rparr>" 16] by simp

text \<open>
  C3. \<open>model_test\<close> on an object whose \<open>train_accuracy\<close> is empty raises: every path
  to its end reads the last entry of \<open>train_accuracy\<close>.
\<close>

theorem model_test_before_train_C3:
  assumes "train_accuracy s = []"
  shows "\<exists>e. snd (model_test fwd s l crit) = Inl e"
  using assms
  by (simp add: model_test_def Let_def last_item_def split: sum.splits prod.splits)

theorem model_test_before_train_C3_witness:
  "train_accuracy (init ()) = [] \<and>
   snd (model_test exact_fwd (init ()) loader8 unit_loss) = Inl IndexError"
proof -
  have e: "train_accuracy (init ()) = []" by (simp add: init_def)
  have "snd (model_test exact_fwd (init ()) loader8 unit_loss) = Inl IndexError"
    by code_simp
  with e model_test_before_train_C3 [OF e, of exact_fwd loader8 unit_loss] show ?thesis by simp
qed

text \<open>
  C1. After a sequence of calls that all returned, \<open>train_losses\<close> and \<open>train_accuracy\<close>
  have the same length and so have \<open>test_losses\<close> and \<open>test_accuracy\<close>; the two training
  lists have grown by one entry for each \<open>model_train\<close> call and the two test lists by one
  entry for each \<open>model_test\<close> call.
\<close>

theorem history_lengths_C1:
  assumes "run fwd s cs = (s', None)"
    and "length (train_losses s) = length (train_accuracy s)"
    and "length (test_losses s) = length (test_accuracy s)"
  shows "length (train_losses s') = length (train_accuracy s') \<and>
         length (test_losses s') = length (test_accuracy s') \<and>
         length (train_accuracy s') = length (train_accuracy s) + length (filter is_train cs) \<and>
         length (test_accuracy s') =
           length (test_accuracy s) + length (filter (\<lambda>c. \<not> is_train c) cs)"
  using assms
proof (induction cs arbitrary: s)
  case Nil
  then show ?case by simp
next
  case (Cons c cs)
  show ?case
  proof (cases c)
    case (Train l crit opt sch)
    from Cons.prems(1) Train obtain s1 u where
      call: "model_train fwd s l crit opt sch = (s1, Inr u)" and
      rest: "run fwd s1 cs = (s', None)"
      by (auto split: prod.splits sum.splits)
    from model_train_returns [OF call] Cons.prems(2,3) have
      s1: "length (train_losses s1) = length (train_accuracy s1)"
          "length (test_losses s1) = length (test_accuracy s1)"
          "length (train_accuracy s1) = Suc (length (train_accuracy s))"
          "length (test_accuracy s1) = length (test_accuracy s)"
      by auto
    from Cons.IH [OF rest s1(1,2)] s1(3,4) Train show ?thesis
      by simp
  next
    case (Test l crit)
    from Cons.prems(1) Test obtain s1 rep where
      call: "model_test fwd s l crit = (s1, Inr rep)" and
      rest: "run fwd s1 cs = (s', None)"
      by (auto split: prod.splits sum.splits)
    from model_test_returns [OF call] Cons.prems(2,3) have
      s1: "length (train_losses s1) = length (train_accuracy s1)"
          "length (test_losses s1) = length (test_accuracy s1)"
          "length (train_accuracy s1) = length (train_accuracy s)"
          "length (test_accuracy s1) = Suc (length (test_accuracy s))"
      by auto
    from Cons.IH [OF rest s1(1,2)] s1(3,4) Test show ?thesis
      by simp
  qed
qed

theorem history_lengths_C1_witness:
  "snd (run exact_fwd (init ())
          [Train loader8 unit_loss keep None, Test loader8 unit_loss,
           Train loader8 plain_loss keep None]) = None \<and>
   length (train_losses (init ())) = length (train_accuracy (init ())) \<and>
   length (test_losses (init ())) = length (test_accuracy (init ())) \<and>
   length (train_losses (fst (run exact_fwd (init ())
          [Train loader8 unit_loss keep None, Test loader8 unit_loss,
           Train loader8 plain_loss keep None]))) = 2 \<and>
   length (train_accuracy (fst (run exact_fwd (init ())
          [Train loader8 unit_loss keep None, Test loader8 unit_loss,
           Train loader8 plain_loss keep None]))) = 2 \<and>
   length (test_losses (fst (run exact_fwd (init ())
          [Train loader8 unit_loss keep None, Test loader8 unit_loss,
           Train loader8 plain_loss keep None]))) = 1 \<and>
   length (test_accuracy (fst (run exact_fwd (init ())
          [Train loader8 unit_loss keep None, Test loader8 unit_loss,
           Train loader8 plain_loss keep None]))) = 1"
proof -
  let ?cs = "[Train loader8 unit_loss keep None, Test loader8 unit_loss,
              Train loader8 plain_loss keep None]"
  let ?r = "run exact_fwd (init ()) ?cs"
  have ok: "snd ?r = None" by code_simp
  then have r: "?r = (fst ?r, None)" by (metis prod.collapse)
  have i1: "length (train_losses (init ())) = length (train_accuracy (init ()))"
    by (simp add: init_def)
  have i2: "length (test_losses (init ())) = length (test_accuracy (init ()))"
    by (simp add: init_def)
  have i3: "length (train_accuracy (init ())) = 0" "length (test_accuracy (init ())) = 0"
    by (simp_all add: init_def)
  from history_lengths_C1 [OF r i1 i2] i3 ok i1 i2 show ?thesis
    by simp
qed

text \<open>
  C2. Every value that \<open>model_train\<close> appends to \<open>train_accuracy\<close> lies between 0 and
  100, and so does every value that \<open>model_test\<close> appends to \<open>test_accuracy\<close> when the
  batches of the loader hold no more samples than the dataset.
\<close>

theorem accuracy_range_C2:
  assumes "sum_list (map length (batches tel)) \<le> dataset_len tel"
  shows "set (drop (length (train_accuracy s))
                (train_accuracy (fst (model_train fwd s trl crit opt sch)))) \<subseteq> {0 .. 100} \<and>
         set (drop (length (test_accuracy s))
                (test_accuracy (fst (model_test fwd' s tel crit')))) \<subseteq> {0 .. 100}"
proof
  obtain s1 r1 where tr: "model_train fwd s trl crit opt sch = (s1, r1)"
    by (cases "model_train fwd s trl crit opt sch")
  show "set (drop (length (train_accuracy s))
               (train_accuracy (fst (model_train fwd s trl crit opt sch)))) \<subseteq> {0 .. 100}"
  proof (cases r1)
    case (Inl e)
    with model_train_raises [of fwd s trl crit opt sch s1 e] tr show ?thesis
      by simp
  next
    case (Inr u)
    with model_train_returns [of fwd s trl crit opt sch s1 u] tr obtain L C P where
      loop: "train_loop fwd crit opt sch (params s) (0, 0, 0) (batches trl)
             = (params s1, Inr (L, C, P))" and
      P: "P \<noteq> 0" and
      acc: "train_accuracy s1 = train_accuracy s @ [100 * real C / real P]"
      by blast
    let ?st = "train_steps fwd crit opt sch (params s) (batches trl)"
    from train_loop_steps [OF loop] have
      "C = sum_list (map (fst \<circ> snd) ?st)" "P = sum_list (map (snd \<circ> snd) ?st)"
      by simp_all
    moreover have "sum_list (map (fst \<circ> snd) ?st) \<le> sum_list (map (snd \<circ> snd) ?st)"
      by (rule sum_list_le_pointwise) (rule train_steps_le)
    ultimately have "C \<le> P" by simp
    then have "real C \<le> real P" by simp
    with P have "0 \<le> 100 * real C / real P" "100 * real C / real P \<le> 100"
      by (simp_all add: divide_le_eq)
    with acc tr show ?thesis by simp
  qed
next
  obtain s2 r2 where te: "model_test fwd' s tel crit' = (s2, r2)"
    by (cases "model_test fwd' s tel crit'")
  from model_test_accuracy [OF te]
  show "set (drop (length (test_accuracy s))
               (test_accuracy (fst (model_test fwd' s tel crit')))) \<subseteq> {0 .. 100}"
  proof
    assume "test_accuracy s2 = test_accuracy s"
    with te show ?thesis by simp
  next
    assume "\<exists>L C P. test_loop fwd' crit' (params s) (0, 0, 0) (batches tel) = Inr (L, C, P) \<and>
              dataset_len tel \<noteq> 0 \<and>
              test_accuracy s2 = test_accuracy s @ [100 * real C / real (dataset_len tel)]"
    then obtain L C P where
      loop: "test_loop fwd' crit' (params s) (0, 0, 0) (batches tel) = Inr (L, C, P)" and
      n: "dataset_len tel \<noteq> 0" and
      acc: "test_accuracy s2 = test_accuracy s @ [100 * real C / real (dataset_len tel)]"
      by blast
    from test_loop_counts [OF loop] assms have "C \<le> dataset_len tel" by simp
    then have "real C \<le> real (dataset_len tel)" by simp
    with n have "0 \<le> 100 * real C / real (dataset_len tel)"
      "100 * real C / real (dataset_len tel) \<le> 100"
      by (simp_all add: divide_le_eq)
    with acc te show ?thesis by simp
  qed
qed

theorem accuracy_range_C2_witness:
  "sum_list (map length (batches loader100)) \<le> dataset_len loader100 \<and>
   train_accuracy (fst (model_train zero_fwd (init ()) loader8 unit_loss keep None)) = [375 / 10] \<and>
   test_accuracy (fst (model_test exact_fwd (init ()) loader100 unit_loss)) = [100] \<and>
   set (drop (length (train_accuracy (init ())))
          (train_accuracy (fst (model_train zero_fwd (init ()) loader8 unit_loss keep None))))
     \<subseteq> {0 .. 100} \<and>
   set (drop (length (test_accuracy (init ())))
          (test_accuracy (fst (model_test exact_fwd (init ()) loader100 unit_loss))))
     \<subseteq> {0 .. 100}"
proof -
  have h: "sum_list (map length (batches loader100)) \<le> dataset_len loader100"
    by code_simp
  have a: "train_accuracy (fst (model_train zero_fwd (init ()) loader8 unit_loss keep None))
           = [375 / 10]"
    by code_simp
  have b: "test_accuracy (fst (model_test exact_fwd (init ()) loader100 unit_loss)) = [100]"
    by code_simp
  from accuracy_range_C2 [OF h, of "init ()" zero_fwd loader8 unit_loss keep None exact_fwd unit_loss]
    h a b show ?thesis by blast
qed

text \<open>
  C9. For a batch of \<open>model_test\<close>: when the call of the loss function with
  \<open>reduction='sum'\<close> returns, its value is added to the running loss; when it raises,
  the loss function is called without that argument and the value of this second call
  is added; when the second call raises too, \<open>model_test\<close> raises.
\<close>

theorem test_loss_fallback_C9:
  assumes "argmax (map (fwd p False) (map fst b)) = Inr pred"
  shows "(\<forall>v. crit (map (fwd p False) (map fst b)) (map snd b) (Some ''sum'') = Inr v \<longrightarrow>
            test_loop fwd crit p (L, C, P) (b # bs)
              = test_loop fwd crit p (L + v, C + eq_sum pred (map snd b), P + length b) bs) \<and>
         (\<forall>e w. crit (map (fwd p False) (map fst b)) (map snd b) (Some ''sum'') = Inl e \<longrightarrow>
            crit (map (fwd p False) (map fst b)) (map snd b) None = Inr w \<longrightarrow>
            test_loop fwd crit p (L, C, P) (b # bs)
              = test_loop fwd crit p (L + w, C + eq_sum pred (map snd b), P + length b) bs) \<and>
         (\<forall>e e'. crit (map (fwd p False) (map fst b)) (map snd b) (Some ''sum'') = Inl e \<longrightarrow>
            crit (map (fwd p False) (map fst b)) (map snd b) None = Inl e' \<longrightarrow>
            test_loop fwd crit p (L, C, P) (b # bs) = Inl e')"
  using assms by (simp add: test_batch_loss_def Let_def)

theorem test_loss_fallback_C9_witness:
  "argmax (map (exact_fwd () False) (map fst [(0::nat, 0::int), (1, 1), (2, 0)])) = Inr [0, 1, 2] \<and>
   plain_loss (map (exact_fwd () False) (map fst [(0::nat, 0::int), (1, 1), (2, 0)]))
     (map snd [(0::nat, 0::int), (1, 1), (2, 0)]) (Some ''sum'') = Inl TypeError \<and>
   plain_loss (map (exact_fwd () False) (map fst [(0::nat, 0::int), (1, 1), (2, 0)]))
     (map snd [(0::nat, 0::int), (1, 1), (2, 0)]) None = Inr 2 \<and>
   test_loop exact_fwd plain_loss () (10, 0, 0) [[(0::nat, 0::int), (1, 1), (2, 0)]] = Inr (12, 2, 3)"
proof -
  let ?b = "[(0::nat, 0::int), (1, 1), (2, 0)]"
  have a: "argmax (map (exact_fwd () False) (map fst ?b)) = Inr [0, 1, 2]"
    by code_simp
  have s: "plain_loss (map (exact_fwd () False) (map fst ?b)) (map snd ?b) (Some ''sum'')
           = Inl TypeError"
    by (simp add: plain_loss_def)
  have n: "plain_loss (map (exact_fwd () False) (map fst ?b)) (map snd ?b) None = Inr 2"
    by (simp add: plain_loss_def)
  have e: "eq_sum [0, 1, 2] (map snd ?b) = 2" by code_simp
  from a s n
    test_loss_fallback_C9 [where fwd = exact_fwd and p = "()" and b = ?b and pred = "[0, 1, 2]"
      and crit = plain_loss and L = 10 and C = 0 and P = 0 and bs = "[]"]
  have "test_loop exact_fwd plain_loss () (10, 0, 0) [?b]
        = test_loop exact_fwd plain_loss () (10 + 2, 0 + eq_sum [0, 1, 2] (map snd ?b), 0 + length ?b) []"
    by blast
  with e have "test_loop exact_fwd plain_loss () (10, 0, 0) [?b] = Inr (12, 2, 3)"
    by simp
  with a s n show ?thesis by blast
qed

text \<open>
  C4, as stated: \<open>model_test\<close> appends the loss normalised by
  \<open>dataset_size / batch_size\<close> to \<open>test_losses\<close>. On a dataset of 100 samples in five
  batches of 20, each with loss 1, the entry appended to \<open>test_losses\<close> is the sum 5 and
  not the normalised loss 1, which only the summary line shows.
\<close>

theorem model_test_history_C4_counterexample:
  "snd (model_test exact_fwd trained8 loader100 unit_loss)
     = Inr \<lparr>average_loss = 1, n_correct = 100, n_total = 100, accuracy = 100,
            accuracy_diff = 0\<rparr> \<and>
   test_losses trained8 = [] \<and>
   test_losses (fst (model_test exact_fwd trained8 loader100 unit_loss)) = [5] \<and>
   test_losses (fst (model_test exact_fwd trained8 loader100 unit_loss)) \<noteq> [1]"
  by code_simp

text \<open>
  C4, amended. A \<open>model_test\<close> call that returns has added up the losses of the batches
  and has appended this sum, as it is, to \<open>test_losses\<close>; the loss of its summary line is
  the sum divided by \<open>dataset_size / batch_size\<close>. On a dataset of 100 samples with batch
  size 20 and five batches of loss 1 the sum appended is 5 and the loss of the summary
  line is 1.
\<close>

theorem model_test_loss_C4:
  assumes "model_test fwd s l crit = (s', Inr rep)"
  shows "\<exists>vs. test_losses_of fwd crit (params s) (batches l) = map Inr vs \<and>
           test_losses s' = test_losses s @ [sum_list vs] \<and>
           average_loss rep = sum_list vs / (real (dataset_len l) / real (batch_size l)) \<and>
           (dataset_len l = 100 \<longrightarrow> batch_size l = 20 \<longrightarrow> vs = replicate 5 1 \<longrightarrow>
              test_losses s' = test_losses s @ [5] \<and> average_loss rep = 1)"
proof -
  from model_test_returns [OF assms] obtain L C P where
    loop: "test_loop fwd crit (params s) (0, 0, 0) (batches l) = Inr (L, C, P)" and
    los: "test_losses s' = test_losses s @ [L]" and
    avg: "average_loss rep = L / (real (dataset_len l) / real (batch_size l))"
    by blast
  from test_loop_losses [OF loop] obtain vs where
    vs: "test_losses_of fwd crit (params s) (batches l) = map Inr vs" and
    L: "L = sum_list vs"
    by auto
  have five: "sum_list (replicate 5 (1::real)) = 5"
    by (simp add: sum_list_replicate)
  have "test_losses s' = test_losses s @ [5] \<and> average_loss rep = 1"
    if "dataset_len l = 100" "batch_size l = 20" "vs = replicate 5 1"
    using that los avg L five by simp
  with vs los avg L show ?thesis by blast
qed

theorem model_test_loss_C4_witness:
  "model_test exact_fwd trained8 loader100 unit_loss
     = (fst (model_test exact_fwd trained8 loader100 unit_loss),
        Inr \<lparr>average_loss = 1, n_correct = 100, n_total = 100, accuracy = 100,
              accuracy_diff = 0\<rparr>) \<and>
   test_losses_of exact_fwd unit_loss (params trained8) (batches loader100)
     = map Inr (replicate 5 1) \<and>
   dataset_len loader100 = 100 \<and> batch_size loader100 = 20 \<and>
   test_losses (fst (model_test exact_fwd trained8 loader100 unit_loss))
     = test_losses trained8 @ [5] \<and>
   average_loss \<lparr>average_loss = 1, n_correct = 100, n_total = 100, accuracy = 100,
                 accuracy_diff = 0\<rparr> = 1"
proof -
  let ?r = "model_test exact_fwd trained8 loader100 unit_loss"
  let ?rep = "\<lparr>average_loss = 1, n_correct = 100, n_total = 100, accuracy = 100,
                accuracy_diff = 0\<rparr>"
  have "snd ?r = Inr ?rep" by code_simp
  then have r: "?r = (fst ?r, Inr ?rep)" by (metis prod.collapse)
  have ls: "test_losses_of exact_fwd unit_loss (params trained8) (batches loader100)
            = map Inr (replicate 5 1)"
    by code_simp
  have d: "dataset_len loader100 = 100" "batch_size loader100 = 20"
    by (simp_all add: loader100_def)
  from model_test_loss_C4 [OF r] obtain vs where
    vs: "test_losses_of exact_fwd unit_loss (params trained8) (batches loader100) = map Inr vs" and
    imp: "dataset_len loader100 = 100 \<longrightarrow> batch_size loader100 = 20 \<longrightarrow> vs = replicate 5 1 \<longrightarrow>
            test_losses (fst ?r) = test_losses trained8 @ [5] \<and> average_loss ?rep = 1"
    by blast
  from vs ls have "map Inr vs = (map Inr (replicate 5 1) :: (error + real) list)"
    by (rule trans [OF sym])
  then have "vs = replicate 5 1"
    by (rule map_injective) simp
  with imp d have "test_losses (fst ?r) = test_losses trained8 @ [5]"
    by blast
  with r ls d show ?thesis by simp
qed

subsection \<open>Selecting by index\<close>

lemma zip3_nth:
  assumes "length ys = length xs" and "length zs = length xs"
  shows "zip xs (zip ys zs) = map (\<lambda>i. (xs ! i, ys ! i, zs ! i)) [0 ..< length xs]"
  using assms by (intro nth_equalityI) simp_all

lemma items_index_select:
  assumes "\<forall>i \<in> set idx. i < length xs"
  shows "\<exists>sel. index_select xs idx = Inr sel \<and> items sel = map (\<lambda>i. xs ! i) idx"
proof -
  from assms have ok: "\<not> (\<exists>i \<in> set idx. length xs \<le> i)"
    by (auto simp: not_le)
  show ?thesis
  proof (cases "\<exists>i. idx = [i]")
    case True
    then obtain i where "idx = [i]" by blast
    with ok show ?thesis by (simp add: index_select_def)
  next
    case False
    then have "index_select xs idx = Inr (Stacked (map (\<lambda>i. xs ! i) idx))"
      using ok by (cases idx rule: list.exhaust; cases "tl idx")
        (auto simp: index_select_def split: list.splits)
    then show ?thesis by simp
  qed
qed

lemma incorrect_indx_bound:
  "i \<in> set (incorrect_indx pred target) \<Longrightarrow> i < length pred \<and> i < length target"
  by (auto simp: incorrect_indx_def)

lemma incorrect_indx_filter:
  assumes "length ds = length pred" and "length target = length pred"
  shows "map (\<lambda>i. (ds ! i, target ! i, pred ! i)) (incorrect_indx pred target)
         = filter (\<lambda>(x, t, k). k \<noteq> t) (zip ds (zip target pred))"
proof -
  have "zip ds (zip target pred)
        = map (\<lambda>i. (ds ! i, target ! i, pred ! i)) [0 ..< length ds]"
    using assms by (intro zip3_nth) simp_all
  then show ?thesis
    using assms by (simp add: incorrect_indx_def filter_map comp_def)
qed

lemma zip3_map:
  "zip (map f is) (zip (map g is) (map h is)) = map (\<lambda>i. (f i, g i, h i)) is"
  by (induction "is") simp_all

text \<open>
  C8. \<open>get_incorrect_pred\<close> reads the first batch of the loader and nothing else. For a
  count \<open>top_n\<close> that is not negative it returns the inputs, targets and predictions of
  the first \<open>top_n\<close> samples of that batch whose prediction differs from the target, in
  the order of the batch: at most \<open>top_n\<close> triples, at most as many as the batch has
  samples, and all misclassified samples when there are fewer than \<open>top_n\<close>.
\<close>

theorem get_incorrect_pred_C8:
  assumes "batches l = b # rest"
    and "argmax (map (fwd (params s) (training s)) (map fst b)) = Inr pred"
    and "0 \<le> top_n"
  shows "\<exists>r. get_incorrect_pred fwd s l top_n = Inr r \<and>
           get_incorrect_pred fwd s (l\<lparr>batches := [b]\<rparr>) top_n = Inr r \<and>
           triples r = take (nat top_n)
             (filter (\<lambda>(x, t, k). k \<noteq> t) (zip (map fst b) (zip (map snd b) pred))) \<and>
           int (length (triples r)) \<le> top_n \<and>
           length (triples r) \<le> length b \<and>
           length (triples r) = min (nat top_n)
             (length (filter (\<lambda>(x, t, k). k \<noteq> t) (zip (map fst b) (zip (map snd b) pred))))"
proof -
  let ?data = "map fst b" and ?target = "map snd b"
  let ?wrong = "filter (\<lambda>(x, t, k). k \<noteq> t) (zip ?data (zip ?target pred))"
  let ?top = "slice_to (incorrect_indx pred ?target) top_n"
  have len: "length pred = length b"
    using argmax_length [OF assms(2)] by simp
  have top: "?top = take (nat top_n) (incorrect_indx pred ?target)"
    using assms(3) by (simp add: slice_to_def)
  have bound: "\<forall>i \<in> set ?top. i < length b"
    using incorrect_indx_bound [of _ pred ?target] len
    unfolding top by (auto dest: in_set_takeD)
  from items_index_select [of ?top ?data] bound obtain ds where
    ds: "index_select ?data ?top = Inr ds" "items ds = map (\<lambda>i. ?data ! i) ?top"
    by auto
  from items_index_select [of ?top ?target] bound obtain ts where
    ts: "index_select ?target ?top = Inr ts" "items ts = map (\<lambda>i. ?target ! i) ?top"
    by auto
  from items_index_select [of ?top pred] bound len obtain ps where
    ps: "index_select pred ?top = Inr ps" "items ps = map (\<lambda>i. pred ! i) ?top"
    by auto
  have r1: "get_incorrect_pred fwd s l top_n = Inr (ds, ts, ps)"
    using assms(1,2) ds(1) ts(1) ps(1) by (simp add: get_incorrect_pred_def Let_def)
  have r2: "get_incorrect_pred fwd s (l\<lparr>batches := [b]\<rparr>) top_n = Inr (ds, ts, ps)"
    using assms(2) ds(1) ts(1) ps(1) by (simp add: get_incorrect_pred_def Let_def)
  have "triples (ds, ts, ps) = map (\<lambda>i. (?data ! i, ?target ! i, pred ! i)) ?top"
    unfolding triples_def prod.case ds(2) ts(2) ps(2) by (rule zip3_map)
  also have "\<dots> = take (nat top_n)
      (map (\<lambda>i. (?data ! i, ?target ! i, pred ! i)) (incorrect_indx pred ?target))"
    unfolding top by (rule take_map [symmetric])
  also have "map (\<lambda>i. (?data ! i, ?target ! i, pred ! i)) (incorrect_indx pred ?target) = ?wrong"
    using len by (intro incorrect_indx_filter) simp_all
  finally have tr: "triples (ds, ts, ps) = take (nat top_n) ?wrong" .
  have n1: "length (triples (ds, ts, ps)) = min (nat top_n) (length ?wrong)"
    unfolding tr by (simp add: min.commute)
  have "length ?wrong \<le> length (zip ?data (zip ?target pred))"
    by (rule length_filter_le)
  then have n2: "length (triples (ds, ts, ps)) \<le> length b"
    using n1 len by simp
  have n3: "int (length (triples (ds, ts, ps))) \<le> top_n"
    using n1 assms(3) by simp
  from r1 r2 tr n1 n2 n3 show ?thesis by blast
qed

theorem get_incorrect_pred_C8_witness:
  "batches loader8 = [(0, 0), (1, 1), (2, 2), (1, 1)] # [[(2, 2), (0, 0), (0, 0), (1, 1)]] \<and>
   argmax (map (zero_fwd (params (init ())) (training (init ())))
             (map fst [(0::nat, 0::int), (1, 1), (2, 2), (1, 1)])) = Inr [0, 0, 0, 0] \<and>
   (0::int) \<le> 2 \<and>
   map_sum id triples (get_incorrect_pred zero_fwd (init ()) loader8 2)
     = Inr [(1, 1, 0), (2, 2, 0)] \<and>
   map_sum id triples (get_incorrect_pred zero_fwd (init ()) loader8 10)
     = Inr [(1, 1, 0), (2, 2, 0), (1, 1, 0)]"
proof -
  let ?b = "[(0::nat, 0::int), (1, 1), (2, 2), (1, 1)]"
  have l: "batches loader8 = ?b # [[(2, 2), (0, 0), (0, 0), (1, 1)]]"
    by (simp add: loader8_def)
  have a: "argmax (map (zero_fwd (params (init ())) (training (init ()))) (map fst ?b))
           = Inr [0, 0, 0, 0]"
    by code_simp
  have w: "filter (\<lambda>(x, t, k). k \<noteq> t) (zip (map fst ?b) (zip (map snd ?b) [0, 0, 0, 0]))
           = [(1, 1, 0), (2, 2, 0), (1, 1, 0)]"
    by simp
  from get_incorrect_pred_C8 [where l = loader8 and b = ?b and fwd = zero_fwd and s = "init ()"
      and pred = "[0, 0, 0, 0]" and top_n = 2, OF l a] obtain r where
    "get_incorrect_pred zero_fwd (init ()) loader8 2 = Inr r"
    "triples r = take (nat 2)
       (filter (\<lambda>(x, t, k). k \<noteq> t) (zip (map fst ?b) (zip (map snd ?b) [0, 0, 0, 0])))"
    by auto
  then have two: "map_sum id triples (get_incorrect_pred zero_fwd (init ()) loader8 2)
                  = Inr [(1, 1, 0), (2, 2, 0)]"
    unfolding w by simp
  from get_incorrect_pred_C8 [where l = loader8 and b = ?b and fwd = zero_fwd and s = "init ()"
      and pred = "[0, 0, 0, 0]" and top_n = 10, OF l a] obtain r' where
    "get_incorrect_pred zero_fwd (init ()) loader8 10 = Inr r'"
    "triples r' = take (nat 10)
       (filter (\<lambda>(x, t, k). k \<noteq> t) (zip (map fst ?b) (zip (map snd ?b) [0, 0, 0, 0])))"
    by auto
  then have ten: "map_sum id triples (get_incorrect_pred zero_fwd (init ()) loader8 10)
                  = Inr [(1, 1, 0), (2, 2, 0), (1, 1, 0)]"
    unfolding w by simp
  from l a two ten show ?thesis by simp
qed

subsection \<open>Counting the matching predictions\<close>

lemma eq_sum_positions:
  assumes "length pred = length target"
  shows "eq_sum pred target
         = length (filter (\<lambda>i. pred ! i = target ! i) [0 ..< length target])"
proof -
  have "zip pred target = map (\<lambda>i. (pred ! i, target ! i)) [0 ..< length target]"
    using assms by (intro nth_equalityI) simp_all
  then show ?thesis
    by (simp add: eq_sum_def filter_map comp_def)
qed

lemma train_steps_preds:
  "train_steps fwd crit opt sch p bs
   = map (\<lambda>(loss, pred, target). (loss, eq_sum pred target, length target))
       (train_preds fwd crit opt sch p bs)"
  by (induction bs arbitrary: p) (auto simp: Let_def split: sum.splits)

lemma train_preds_lengths:
  "(loss, pred, target) \<in> set (train_preds fwd crit opt sch p bs) \<Longrightarrow>
   length pred = length target"
proof (induction bs arbitrary: p)
  case Nil
  then show ?case by simp
next
  case (Cons b bs)
  then show ?case
    using argmax_length [of "map (fwd p True) (map fst b)"]
    by (auto simp: Let_def split: sum.splits)
qed

lemma train_preds_targets:
  "length (train_preds fwd crit opt sch p bs) = length bs \<Longrightarrow>
   map (\<lambda>(loss, pred, target). target) (train_preds fwd crit opt sch p bs) = map (map snd) bs"
proof (induction bs arbitrary: p)
  case Nil
  then show ?case by simp
next
  case (Cons b bs)
  then show ?case
    by (auto simp: Let_def split: sum.splits)
qed

text \<open>
  C5. A \<open>model_train\<close> call that returns has processed every batch and has appended
  exactly one value to \<open>train_accuracy\<close> and exactly one value to \<open>train_losses\<close>. The
  accuracy is 100 times the number of samples whose prediction equals their target,
  over the number of samples of the batches; the loss is the sum of the losses of the
  batches. When every prediction of the pass equals its target, as in a pass over two
  batches of four samples that are all predicted correctly, the appended accuracy is
  100.
\<close>

theorem model_train_appends_C5:
  assumes "model_train fwd s l crit opt sch = (s', Inr ())"
  shows "length (train_preds fwd crit opt sch (params s) (batches l)) = length (batches l) \<and>
         map (\<lambda>(loss, pred, target). target) (train_preds fwd crit opt sch (params s) (batches l))
           = map (map snd) (batches l) \<and>
         train_accuracy s' = train_accuracy s @
           [100 * real (sum_list (map
                    (\<lambda>(loss, pred, target).
                       length (filter (\<lambda>i. pred ! i = target ! i) [0 ..< length target]))
                    (train_preds fwd crit opt sch (params s) (batches l))))
                / real (sum_list (map length (batches l)))] \<and>
         train_losses s' = train_losses s @
           [sum_list (map (\<lambda>(loss, pred, target). loss)
                        (train_preds fwd crit opt sch (params s) (batches l)))] \<and>
         ((\<forall>(loss, pred, target) \<in> set (train_preds fwd crit opt sch (params s) (batches l)).
             pred = target)
            \<longrightarrow> train_accuracy s' = train_accuracy s @ [100])"
proof -
  let ?st = "train_steps fwd crit opt sch (params s) (batches l)"
  let ?pr = "train_preds fwd crit opt sch (params s) (batches l)"
  let ?match = "\<lambda>(loss :: real, pred :: int list, target :: int list).
                  length (filter (\<lambda>i. pred ! i = target ! i) [0 ..< length target])"
  from model_train_returns [OF assms] obtain L C P where
    loop: "train_loop fwd crit opt sch (params s) (0, 0, 0) (batches l)
           = (params s', Inr (L, C, P))" and
    P: "P \<noteq> 0" and
    acc: "train_accuracy s' = train_accuracy s @ [100 * real C / real P]" and
    los: "train_losses s' = train_losses s @ [L]"
    by blast
  from train_loop_steps [OF loop] have
    len: "length ?st = length (batches l)" and
    L: "L = sum_list (map fst ?st)" and
    C: "C = sum_list (map (fst \<circ> snd) ?st)" and
    P': "P = sum_list (map (snd \<circ> snd) ?st)"
    by simp_all
  have st: "?st = map (\<lambda>(loss, pred, target). (loss, eq_sum pred target, length target)) ?pr"
    by (rule train_steps_preds)
  have len': "length ?pr = length (batches l)"
    using len unfolding st by simp
  have tg: "map (\<lambda>(loss, pred, target). target) ?pr = map (map snd) (batches l)"
    using len' by (rule train_preds_targets)
  have P'': "P = sum_list (map length (batches l))"
    using P' train_steps_sizes [OF len] by simp
  have L': "L = sum_list (map (\<lambda>(loss, pred, target). loss) ?pr)"
    unfolding L st by (simp add: comp_def case_prod_unfold)
  have "map (fst \<circ> snd) ?st = map (\<lambda>(loss, pred, target). eq_sum pred target) ?pr"
    unfolding st by (simp add: comp_def case_prod_unfold)
  also have "\<dots> = map ?match ?pr"
  proof (rule map_cong [OF refl])
    fix x assume x: "x \<in> set ?pr"
    obtain loss pred target where xe: "x = (loss, pred, target)" by (cases x)
    with x have "length pred = length target"
      using train_preds_lengths by fastforce
    then show "(\<lambda>(loss, pred, target). eq_sum pred target) x = ?match x"
      unfolding xe by (simp add: eq_sum_positions)
  qed
  finally have C': "C = sum_list (map ?match ?pr)"
    using C by simp
  have all: "train_accuracy s' = train_accuracy s @ [100]"
    if eq: "\<forall>(loss, pred, target) \<in> set ?pr. pred = target"
  proof -
    have "map ?match ?pr = map (\<lambda>(loss, pred, target). length target) ?pr"
    proof (rule map_cong [OF refl])
      fix x assume x: "x \<in> set ?pr"
      obtain loss pred target where xe: "x = (loss, pred, target)" by (cases x)
      with x eq have "pred = target" by auto
      then show "?match x = (\<lambda>(loss, pred, target). length target) x"
        unfolding xe by simp
    qed
    also have "\<dots> = map (snd \<circ> snd) ?st"
      unfolding st by (simp add: comp_def case_prod_unfold)
    finally have "C = P" using C' P' by simp
    with P acc show ?thesis by simp
  qed
  from len' tg acc los all show ?thesis
    unfolding L' C' P'' by blast
qed

theorem model_train_appends_C5_witness:
  "model_train exact_fwd (init ()) loader8 unit_loss keep None
     = (fst (model_train exact_fwd (init ()) loader8 unit_loss keep None), Inr ()) \<and>
   train_preds exact_fwd unit_loss keep None (params (init ())) (batches loader8)
     = [(1, [0, 1, 2, 1], [0, 1, 2, 1]), (1, [2, 0, 0, 1], [2, 0, 0, 1])] \<and>
   train_accuracy (fst (model_train exact_fwd (init ()) loader8 unit_loss keep None)) = [100] \<and>
   train_losses (fst (model_train exact_fwd (init ()) loader8 unit_loss keep None)) = [2] \<and>
   model_train zero_fwd (init ()) loader8 plain_loss keep None
     = (fst (model_train zero_fwd (init ()) loader8 plain_loss keep None), Inr ()) \<and>
   train_preds zero_fwd plain_loss keep None (params (init ())) (batches loader8)
     = [(2, [0, 0, 0, 0], [0, 1, 2, 1]), (2, [0, 0, 0, 0], [2, 0, 0, 1])] \<and>
   train_accuracy (fst (model_train zero_fwd (init ()) loader8 plain_loss keep None))
     = [375 / 10] \<and>
   train_losses (fst (model_train zero_fwd (init ()) loader8 plain_loss keep None)) = [4]"
proof -
  let ?r = "model_train exact_fwd (init ()) loader8 unit_loss keep None"
  let ?q = "model_train zero_fwd (init ()) loader8 plain_loss keep None"
  have i: "train_accuracy (init ()) = []" "train_losses (init ()) = []"
    by (simp_all add: init_def)
  have ln: "sum_list (map length (batches loader8)) = 8" by code_simp
  have "snd ?r = Inr ()" by code_simp
  then have r: "?r = (fst ?r, Inr ())" by (metis prod.collapse)
  have pr: "train_preds exact_fwd unit_loss keep None (params (init ())) (batches loader8)
            = [(1, [0, 1, 2, 1], [0, 1, 2, 1]), (1, [2, 0, 0, 1], [2, 0, 0, 1])]"
    by code_simp
  note th = model_train_appends_C5 [OF r, unfolded pr]
  have r_los: "train_losses (fst ?r) = train_losses (init ()) @
      [sum_list (map (\<lambda>(loss, pred, target). loss)
         [(1::real, [0, 1, 2, 1::int], [0, 1, 2, 1::int]), (1, [2, 0, 0, 1], [2, 0, 0, 1])])]"
    using th by blast
  have "(\<forall>(loss, pred, target) \<in>
           set [(1::real, [0, 1, 2, 1::int], [0, 1, 2, 1::int]), (1, [2, 0, 0, 1], [2, 0, 0, 1])].
           pred = target) \<longrightarrow>
        train_accuracy (fst ?r) = train_accuracy (init ()) @ [100]"
    using th by blast
  then have r_acc: "train_accuracy (fst ?r) = train_accuracy (init ()) @ [100]"
    by simp
  have "snd ?q = Inr ()" by code_simp
  then have q: "?q = (fst ?q, Inr ())" by (metis prod.collapse)
  have pq: "train_preds zero_fwd plain_loss keep None (params (init ())) (batches loader8)
            = [(2, [0, 0, 0, 0], [0, 1, 2, 1]), (2, [0, 0, 0, 0], [2, 0, 0, 1])]"
    by code_simp
  note tq = model_train_appends_C5 [OF q, unfolded pq ln]
  have q_los: "train_losses (fst ?q) = train_losses (init ()) @
      [sum_list (map (\<lambda>(loss, pred, target). loss)
         [(2::real, [0, 0, 0, 0::int], [0, 1, 2, 1::int]), (2, [0, 0, 0, 0], [2, 0, 0, 1])])]"
    using tq by blast
  have q_acc: "train_accuracy (fst ?q) = train_accuracy (init ()) @
      [100 * real (sum_list (map
          (\<lambda>(loss, pred, target).
             length (filter (\<lambda>i. pred ! i = target ! i) [0 ..< length target]))
          [(2::real, [0, 0, 0, 0::int], [0, 1, 2, 1::int]), (2, [0, 0, 0, 0], [2, 0, 0, 1])]))
       / real 8]"
    using tq by blast
  have cnt: "sum_list (map
          (\<lambda>(loss, pred, target).
             length (filter (\<lambda>i. pred ! i = target ! i) [0 ..< length target]))
          [(2::real, [0, 0, 0, 0::int], [0, 1, 2, 1::int]), (2, [0, 0, 0, 0], [2, 0, 0, 1])]) = 3"
    by code_simp
  have q_acc': "train_accuracy (fst ?q) = [375 / 10]"
    using q_acc i unfolding cnt by simp
  from r pr r_los r_acc q pq q_los q_acc' i show ?thesis by simp
qed

end
